theory Spec2Isabelle
  imports Complex_Main "HOL-Library.Sublist"
begin

section \<open>EcomDominator: the catalog store, the adapter factory and the sync orchestrator\<close>

text \<open>
  A shallow embedding of \<^verbatim>\<open>EcomDominator_Standalone/src/ecom_dominator\<close>:
  \<^verbatim>\<open>models.py\<close> (the four tables), \<^verbatim>\<open>service.py\<close> (\<^verbatim>\<open>ServiceLayer\<close>) and the
  marketplace clients under \<^verbatim>\<open>marketplaces/\<close>.

  Conventions of the embedding.
  \<^item> A Python \<^verbatim>\<open>float\<close> that holds a price is an exact rational: the model is the
    arithmetic on decimals the code intends, and non-finite floats are outside of it.
  \<^item> A \<^verbatim>\<open>datetime\<close> is an integer count of microseconds.
  \<^item> An exception is a value of \<open>py_exn\<close>; a call that can raise returns \<open>py_exn + 'a\<close>
    with \<open>Inl\<close> the exception, and every \<^verbatim>\<open>try/except\<close> of the source is a case
    distinction on that sum.
  \<^item> \<^verbatim>\<open>structlog\<close> calls append to a log, adapter calls issued by the orchestrator
    append to a trace, so that "is logged" and "no call is made" are statements
    about lists.
  \<^item> The SQLAlchemy \<^verbatim>\<open>Session\<close> is the store as committed, the flag
    \<^verbatim>\<open>autoflush\<close> it was made with (\<^verbatim>\<open>SessionLocal\<close> of models.py sets it to
    False, the sessions of the tests and of the dashboard leave it True) and the flag
    \<open>session_ok\<close>: a flush that violates a constraint of models.py raises
    \<^verbatim>\<open>IntegrityError\<close> and rolls the transaction back, and until \<^verbatim>\<open>rollback()\<close> is
    called every further query of that session raises \<^verbatim>\<open>PendingRollbackError\<close>.
    An operation returns the exception that left it, if any, and the state it left.
  \<^item> Columns the database fills by itself (\<^verbatim>\<open>created_at\<close>, \<^verbatim>\<open>imported_at\<close>, the
    \<^verbatim>\<open>onupdate\<close> refresh of \<^verbatim>\<open>updated_at\<close>, the surrogate key of an order) are not
    modelled; \<^verbatim>\<open>updated_at\<close> is read as stored.
\<close>

subsection \<open>Python values, exceptions, log\<close>

datatype pyval = PyNone | PyStr string | PyInt int

datatype py_exn =
    ConnectionError
  | AdapterError string
  | DecodeError
  | AttributeError
  | IntegrityError
  | PendingRollbackError
  | ReadError
  | OverflowError

datatype level = Info | Warn | Error

type_synonym log_entry = "level \<times> string"

subsection \<open>models.py\<close>

text \<open>
  Field names are prefixed where two tables share a column name. \<^verbatim>\<open>nullable=False\<close>
  columns (\<^verbatim>\<open>sku\<close>, \<^verbatim>\<open>title\<close>, \<^verbatim>\<open>price\<close>, \<^verbatim>\<open>platform\<close>, \<^verbatim>\<open>external_order_id\<close>)
  have no \<open>option\<close>; \<^verbatim>\<open>quantity\<close> has \<^verbatim>\<open>default=0\<close> and every writer of the
  repository stores an integer. The text columns of a product hold whatever cell the
  ingested file had, of type \<open>'c\<close>.
\<close>

record 'c product =
  p_id :: nat
  sku :: string
  title :: 'c
  description :: "'c option"
  price :: rat
  cost_price :: "rat option"
  quantity :: int
  category :: "'c option"
  images :: "string list option"
  tags :: "string list option"
  updated_at :: "int option"

record credentials =
  c_platform :: string
  api_key :: "string option"
  api_secret :: "string option"
  access_token :: "string option"
  refresh_token :: "string option"
  marketplace_id :: "string option"
  merchant_id :: "string option"
  additional_config :: "(string \<rightharpoonup> pyval) option"

record listing =
  l_id :: nat
  product_id :: "nat option"
  l_platform :: string
  external_id :: "string option"
  l_status :: "string option"
  l_price :: "rat option"
  url :: "string option"
  last_synced_at :: "int option"
  sync_message :: "string option"

record order =
  external_order_id :: string
  o_platform :: string
  o_status :: "string option"
  total_amount :: "rat option"
  currency :: "string option"
  customer_email :: "string option"
  fulfillment_status :: "string option"

record 'c database =
  products :: "'c product list"
  credentials_tbl :: "credentials list"
  listings :: "listing list"
  orders :: "order list"

subsection \<open>The adapter interface (marketplaces/base.py)\<close>

datatype variant = Shopify | Ebay | Amazon | Walmart | Etsy | Facebook | TikTok

text \<open>A constructed client: its class and the \<^verbatim>\<open>credentials\<close> dict it was given.\<close>

datatype client = Client variant "string \<rightharpoonup> pyval"

text \<open>
  The orchestrator is written against \<^verbatim>\<open>MarketplaceAdapter\<close>: each method returns
  or raises. What the marketplace answers is the environment of a run.
\<close>

record 'c adapter_env =
  list_product :: "client \<Rightarrow> 'c product \<Rightarrow> py_exn + string"
  update_inventory :: "client \<Rightarrow> string option \<Rightarrow> int \<Rightarrow> py_exn + bool"
  update_price :: "client \<Rightarrow> string option \<Rightarrow> rat \<Rightarrow> py_exn + bool"
  fetch_orders :: "client \<Rightarrow> nat \<Rightarrow> py_exn + order list"

datatype 'c adapter_call =
    Call_list_product client "'c product"
  | Call_update_inventory listing int
  | Call_update_price listing rat
  | Call_fetch_orders client nat

text \<open>
  The state one operation of \<^verbatim>\<open>ServiceLayer\<close> threads: the store, the session's two
  flags, the log, the trace of adapter calls.
\<close>

record 'c world =
  db :: "'c database"
  autoflush :: bool
  session_ok :: bool
  logged :: "log_entry list"
  calls :: "'c adapter_call list"

definition say :: "level \<Rightarrow> string \<Rightarrow> 'c world \<Rightarrow> 'c world" where
  "say lv msg w = w\<lparr>logged := logged w @ [(lv, msg)]\<rparr>"

definition called :: "'c adapter_call \<Rightarrow> 'c world \<Rightarrow> 'c world" where
  "called c w = w\<lparr>calls := calls w @ [c]\<rparr>"

subsection \<open>ServiceLayer.get_client\<close>

definition opt_val :: "string option \<Rightarrow> pyval" where
  "opt_val v = (case v of None \<Rightarrow> PyNone | Some s \<Rightarrow> PyStr s)"

text \<open>\<^verbatim>\<open>creds.additional_config.get(k) if creds.additional_config else None\<close>\<close>

definition config_get :: "credentials \<Rightarrow> string \<Rightarrow> pyval" where
  "config_get creds k =
     (case additional_config creds of
        None \<Rightarrow> PyNone
      | Some d \<Rightarrow> (case d k of None \<Rightarrow> PyNone | Some v \<Rightarrow> v))"

text \<open>
  The dict literal of lines 76 to 90: eleven keys that are always present (with the
  value \<^verbatim>\<open>None\<close> when the column is empty), then the keys of
  \<^verbatim>\<open>additional_config\<close>, which win on a collision.
\<close>

definition c_dict :: "credentials \<Rightarrow> (string \<rightharpoonup> pyval)" where
  "c_dict creds =
     [''api_key'' \<mapsto> opt_val (api_key creds),
      ''access_token'' \<mapsto> opt_val (access_token creds),
      ''shop_url'' \<mapsto> config_get creds ''shop_url'',
      ''merchant_id'' \<mapsto> opt_val (merchant_id creds),
      ''client_id'' \<mapsto> config_get creds ''client_id'',
      ''client_secret'' \<mapsto> opt_val (api_secret creds),
      ''shop_id'' \<mapsto> config_get creds ''shop_id'',
      ''shop_cipher'' \<mapsto> config_get creds ''shop_cipher'',
      ''app_key'' \<mapsto> config_get creds ''app_key'',
      ''marketplace_id'' \<mapsto> opt_val (marketplace_id creds),
      ''refresh_token'' \<mapsto> opt_val (refresh_token creds)]
     ++ (case additional_config creds of None \<Rightarrow> Map.empty | Some d \<Rightarrow> d)"

definition get_client :: "'c database \<Rightarrow> string \<Rightarrow> client option" where
  "get_client d platform =
     (case find (\<lambda>c. c_platform c = platform) (credentials_tbl d) of
        None \<Rightarrow> None
      | Some creds \<Rightarrow>
          if platform = ''shopify'' then Some (Client Shopify (c_dict creds))
          else if platform = ''ebay'' then Some (Client Ebay (c_dict creds))
          else if platform = ''amazon'' then Some (Client Amazon (c_dict creds))
          else if platform = ''walmart'' then Some (Client Walmart (c_dict creds))
          else if platform = ''etsy'' then Some (Client Etsy (c_dict creds))
          else if platform = ''facebook'' then Some (Client Facebook (c_dict creds))
          else if platform = ''tiktok'' then Some (Client TikTok (c_dict creds))
          else None)"

text \<open>\<^verbatim>\<open>dict.get(key, default)\<close>: the default stands in for an absent key only.\<close>

definition dict_get :: "(string \<rightharpoonup> pyval) \<Rightarrow> string \<Rightarrow> pyval \<Rightarrow> pyval" where
  "dict_get d k dflt = (case d k of None \<Rightarrow> dflt | Some v \<Rightarrow> v)"

subsection \<open>ServiceLayer.run_pricing_engine\<close>

text \<open>
  Python's \<^verbatim>\<open>round(x, 2)\<close> on an exact decimal: to the nearest hundredth, a tie to
  the even one.
\<close>

definition py_round2 :: "rat \<Rightarrow> rat" where
  "py_round2 x =
     (let s = x * 100; n = \<lfloor>s\<rfloor>; r = s - of_int n
      in of_int (if r < 1 / 2 then n
                 else if 1 / 2 < r then n + 1
                 else if even n then n else n + 1) / 100)"

text \<open>\<^verbatim>\<open>(utcnow() - updated_at).days\<close>: whole days, rounded towards minus infinity.\<close>

definition days_since_update :: "int \<Rightarrow> int \<Rightarrow> int" where
  "days_since_update now t = (now - t) div 86400000000"

text \<open>Lines 195 to 201: the decayed price, raised to the floor.\<close>

definition floor_price :: "'c product \<Rightarrow> rat" where
  "floor_price p = (case cost_price p of None \<Rightarrow> 0 | Some c \<Rightarrow> c) * (110 / 100)"

definition new_price :: "'c product \<Rightarrow> rat" where
  "new_price p =
     (let old_price = price p;
          np = py_round2 (old_price * (98 / 100));
          fl = floor_price p
      in if np < fl then fl else np)"

text \<open>Lines 208 to 215: \<^verbatim>\<open>for listing in p.listings\<close>.\<close>

fun push_price :: "'c adapter_env \<Rightarrow> rat \<Rightarrow> listing list \<Rightarrow> 'c world \<Rightarrow> 'c world" where
  "push_price env np [] w = w"
| "push_price env np (l # ls) w =
     push_price env np ls
       (if l_status l = Some ''active'' then
          (case get_client (db w) (l_platform l) of
             None \<Rightarrow> w
           | Some cl \<Rightarrow>
               (case update_price env cl (external_id l) np of
                  Inr _ \<Rightarrow> called (Call_update_price l np) w
                | Inl e \<Rightarrow> say Error ''Price update failed'' (called (Call_update_price l np) w)))
        else w)"

definition listings_of :: "'c database \<Rightarrow> 'c product \<Rightarrow> listing list" where
  "listings_of d p = filter (\<lambda>l. product_id l = Some (p_id p)) (listings d)"

text \<open>The body of \<^verbatim>\<open>for p in products\<close>: the product as the loop leaves it.\<close>

definition reprice :: "'c adapter_env \<Rightarrow> int \<Rightarrow> 'c product \<Rightarrow> 'c world \<Rightarrow> 'c product \<times> 'c world" where
  "reprice env now p w =
     (case updated_at p of
        None \<Rightarrow> (p, w)
      | Some t \<Rightarrow>
          if days_since_update now t > 30 \<and> quantity p > 0 then
            (if new_price p < price p then
               (p\<lparr>price := new_price p\<rparr>,
                push_price env (new_price p) (listings_of (db w) p)
                  (say Info ''Dynamic Pricing Triggered'' w))
             else (p, w))
          else (p, w))"

fun reprice_all :: "'c adapter_env \<Rightarrow> int \<Rightarrow> 'c product list \<Rightarrow> 'c world \<Rightarrow> 'c product list \<times> 'c world" where
  "reprice_all env now [] w = ([], w)"
| "reprice_all env now (p # ps) w =
     (case reprice env now p w of
        (p', w') \<Rightarrow> (case reprice_all env now ps w' of (ps', w'') \<Rightarrow> (p' # ps', w'')))"

text \<open>
  The first query of an operation is where a session that needs a rollback raises. The
  products are changed in memory; the one \<^verbatim>\<open>commit\<close> at the end writes them.
\<close>

definition run_pricing_engine :: "'c adapter_env \<Rightarrow> int \<Rightarrow> 'c world \<Rightarrow> py_exn option \<times> 'c world" where
  "run_pricing_engine env now w =
     (let w0 = say Info ''Running Pricing Engine'' w in
      if \<not> session_ok w0 then (Some PendingRollbackError, w0)
      else (case reprice_all env now (products (db w0)) w0 of
              (ps', w') \<Rightarrow> (None, w'\<lparr>db := (db w')\<lparr>products := ps'\<rparr>\<rparr>)))"

subsection \<open>ServiceLayer.publish_product\<close>

definition fresh_id :: "listing list \<Rightarrow> nat" where
  "fresh_id ls = Suc (fold max (map l_id ls) 0)"

fun update_first :: "('a \<Rightarrow> bool) \<Rightarrow> ('a \<Rightarrow> 'a) \<Rightarrow> 'a list \<Rightarrow> 'a list" where
  "update_first P f [] = []"
| "update_first P f (x # xs) = (if P x then f x # xs else x # update_first P f xs)"

text \<open>
  Lines 120 to 128: the first listing of the product on the platform, or a new one, gets
  the external id, the status and the product's price, and is committed.
\<close>

definition save_listing :: "'c product \<Rightarrow> string \<Rightarrow> string \<Rightarrow> listing list \<Rightarrow> listing list" where
  "save_listing p platform ext_id ls =
     (let mine = (\<lambda>l. product_id l = Some (p_id p) \<and> l_platform l = platform);
          assign = (\<lambda>l. l\<lparr>external_id := Some ext_id, l_status := Some ''active'',
                          l_price := Some (price p)\<rparr>)
      in case find mine ls of
           None \<Rightarrow> ls @ [assign \<lparr>l_id = fresh_id ls, product_id = Some (p_id p),
                               l_platform = platform, external_id = None, l_status = None,
                               l_price = None, url = None, last_synced_at = None,
                               sync_message = None\<rparr>]
         | Some _ \<Rightarrow> update_first mine assign ls)"


text \<open>The body of \<^verbatim>\<open>for platform in platforms\<close>.\<close>

definition publish_on :: "'c adapter_env \<Rightarrow> 'c product \<Rightarrow> string \<Rightarrow> 'c world \<Rightarrow> 'c world" where
  "publish_on env p platform w =
     (case get_client (db w) platform of
        None \<Rightarrow> say Warn ''No credentials for platform'' w
      | Some cl \<Rightarrow>
          (case list_product env cl p of
             Inr ext_id \<Rightarrow>
               say Info ''Published product''
                 ((called (Call_list_product cl p) w)
                    \<lparr>db := (db w)\<lparr>listings := save_listing p platform ext_id (listings (db w))\<rparr>\<rparr>)
           | Inl e \<Rightarrow> say Error ''Failed to publish'' (called (Call_list_product cl p) w)))"

fun publish_loop :: "'c adapter_env \<Rightarrow> 'c product \<Rightarrow> string list \<Rightarrow> 'c world \<Rightarrow> 'c world" where
  "publish_loop env p [] w = w"
| "publish_loop env p (platform # rest) w = publish_loop env p rest (publish_on env p platform w)"


subsection \<open>ServiceLayer.sync_inventory\<close>

text \<open>\<^verbatim>\<open>listing.product\<close>: the row the foreign key names, \<^verbatim>\<open>None\<close> when there is none.\<close>

definition product_of :: "'c database \<Rightarrow> listing \<Rightarrow> 'c product option" where
  "product_of d l =
     (case product_id l of None \<Rightarrow> None | Some pid \<Rightarrow> find (\<lambda>p. p_id p = pid) (products d))"

text \<open>
  The body of \<^verbatim>\<open>for listing in listings\<close>, for one listing of the table; the query
  keeps the listings whose status is \<^verbatim>\<open>'active'\<close>, the others pass unchanged. The
  arguments of \<^verbatim>\<open>update_inventory\<close> are evaluated first, so a listing without a
  product raises \<^verbatim>\<open>AttributeError\<close> before any call. The call's result is not read.
\<close>

definition sync_listing :: "'c adapter_env \<Rightarrow> int \<Rightarrow> listing \<Rightarrow> 'c world \<Rightarrow> listing \<times> 'c world" where
  "sync_listing env db_now l w =
     (if l_status l = Some ''active'' then
        (case get_client (db w) (l_platform l) of
           None \<Rightarrow> (l, w)
         | Some cl \<Rightarrow>
             (case product_of (db w) l of
                None \<Rightarrow> (l, say Error ''Sync failed'' w)
              | Some p \<Rightarrow>
                  (case update_inventory env cl (external_id l) (quantity p) of
                     Inr _ \<Rightarrow> (l\<lparr>last_synced_at := Some db_now\<rparr>,
                               called (Call_update_inventory l (quantity p)) w)
                   | Inl e \<Rightarrow> (l, say Error ''Sync failed''
                                     (called (Call_update_inventory l (quantity p)) w)))))
      else (l, w))"

fun sync_listings :: "'c adapter_env \<Rightarrow> int \<Rightarrow> listing list \<Rightarrow> 'c world \<Rightarrow> listing list \<times> 'c world" where
  "sync_listings env db_now [] w = ([], w)"
| "sync_listings env db_now (l # ls) w =
     (case sync_listing env db_now l w of
        (l', w') \<Rightarrow> (case sync_listings env db_now ls w' of (ls', w'') \<Rightarrow> (l' # ls', w'')))"


subsection \<open>ServiceLayer.sync_orders\<close>

text \<open>Line 165: is there a stored order with this external id on this platform?\<close>

definition order_exists :: "order list \<Rightarrow> string \<Rightarrow> string \<Rightarrow> bool" where
  "order_exists rows ext platform =
     list_ex (\<lambda>r. external_order_id r = ext \<and> o_platform r = platform) rows"

text \<open>
  A flush inserts the pending orders in the order they were added. models.py declares
  \<^verbatim>\<open>external_order_id\<close> unique on its own: an insert whose external id is stored
  already, or twice among the pending ones, raises \<^verbatim>\<open>IntegrityError\<close>.
\<close>

definition flush_orders :: "order list \<Rightarrow> order list \<Rightarrow> py_exn + order list" where
  "flush_orders rows pending =
     (if distinct (map external_order_id pending)
         \<and> list_all (\<lambda>r. external_order_id r \<notin> set (map external_order_id rows)) pending
      then Inr (rows @ pending) else Inl IntegrityError)"

text \<open>
  Lines 162 to 172, \<^verbatim>\<open>for o in fetched_orders\<close>, on the rows the transaction sees, the
  orders added but not flushed, and \<^verbatim>\<open>count\<close>. With \<^verbatim>\<open>autoflush\<close> the query of line
  165 flushes first. Each order that is added is logged once, so \<^verbatim>\<open>count\<close> is also
  the number of lines the loop logs.
\<close>

fun add_orders :: "bool \<Rightarrow> string \<Rightarrow> order list \<Rightarrow> order list \<Rightarrow> order list \<Rightarrow> nat
    \<Rightarrow> py_exn option \<times> order list \<times> order list \<times> nat" where
  "add_orders af platform [] rows pending count = (None, rows, pending, count)"
| "add_orders af platform (x # xs) rows pending count =
     (case (if af then (case flush_orders rows pending of
                          Inl e \<Rightarrow> Inl e
                        | Inr rows' \<Rightarrow> Inr (rows', []))
            else Inr (rows, pending)) of
        Inl e \<Rightarrow> (Some e, rows, pending, count)
      | Inr (rows', pending') \<Rightarrow>
          if order_exists rows' (external_order_id x) platform
          then add_orders af platform xs rows' pending' count
          else add_orders af platform xs rows' (pending' @ [x]) (count + 1))"


fun say_times :: "nat \<Rightarrow> level \<Rightarrow> string \<Rightarrow> 'c world \<Rightarrow> 'c world" where
  "say_times 0 lv msg w = w"
| "say_times (Suc n) lv msg w = say_times n lv msg (say lv msg w)"

text \<open>
  Lines 159 to 177 for one platform that has a client. An exception inside the
  \<^verbatim>\<open>try\<close> is logged; when it came from a flush, nothing of this platform is stored
  and the session is left in need of a rollback.
\<close>

definition sync_platform :: "'c adapter_env \<Rightarrow> string \<Rightarrow> client \<Rightarrow> 'c world \<Rightarrow> 'c world" where
  "sync_platform env platform cl w =
     (let w1 = called (Call_fetch_orders cl 60) (say Info ''Syncing orders'' w) in
      case fetch_orders env cl 60 of
        Inl e \<Rightarrow> say Error ''Order Sync Failed'' w1
      | Inr fetched_orders \<Rightarrow>
          (case add_orders (autoflush w) platform fetched_orders (orders (db w)) [] 0 of
             (Some e, _, _, count) \<Rightarrow>
               (say Error ''Order Sync Failed''
                  (say_times count Info ''New Order Received'' w1))\<lparr>session_ok := False\<rparr>
           | (None, rows, pending, count) \<Rightarrow>
               (case flush_orders rows pending of
                  Inl e \<Rightarrow>
                    (say Error ''Order Sync Failed''
                       (say_times count Info ''New Order Received'' w1))\<lparr>session_ok := False\<rparr>
                | Inr rows' \<Rightarrow>
                    say Info ''Order Sync Complete''
                      ((say_times count Info ''New Order Received'' w1)
                         \<lparr>db := (db w)\<lparr>orders := rows'\<rparr>\<rparr>))))"



subsection \<open>AmazonSPAPIClient.__init__\<close>

text \<open>
  The attributes the constructor reads from the dict it is given; \<^verbatim>\<open>AWS4Auth\<close> is
  kept as the two keys it is built from.
\<close>

record amazon_client =
  az_access_token :: pyval
  az_marketplace_id :: pyval
  az_refresh_token :: pyval
  az_client_id :: pyval
  az_client_secret :: pyval
  az_aws_access_key_id :: pyval
  az_aws_secret_access_key :: pyval

definition amazon_init :: "(string \<rightharpoonup> pyval) \<Rightarrow> amazon_client" where
  "amazon_init credentials =
     \<lparr>az_access_token = dict_get credentials ''access_token'' PyNone,
      az_marketplace_id = dict_get credentials ''marketplace_id'' (PyStr ''ATVPDKIKX0DER''),
      az_refresh_token = dict_get credentials ''refresh_token'' PyNone,
      az_client_id = dict_get credentials ''client_id'' PyNone,
      az_client_secret = dict_get credentials ''client_secret'' PyNone,
      az_aws_access_key_id = dict_get credentials ''aws_access_key_id'' (PyStr ''mock''),
      az_aws_secret_access_key = dict_get credentials ''aws_secret_access_key'' (PyStr ''mock'')\<rparr>"


subsection \<open>The marketplace clients on HTTP replies\<close>

text \<open>
  A call of \<^verbatim>\<open>requests\<close> either raises (no connection, a timeout) or returns a
  response with a status code and a body. What a client reads from the body of a
  successful response (\<^verbatim>\<open>r.json()\<close> and the subscripts that follow, any of which can
  raise) is a parameter \<open>decode\<close> of its model. A client method returns what it logged
  and its result.
\<close>

datatype 'b reply = Refused | Response nat 'b

type_synonym 'a logged_result = "log_entry list \<times> (py_exn + 'a)"



paragraph \<open>validate_connection\<close>

text \<open>shopify_client.py lines 21 to 27: the exception is logged and turned into False.\<close>

definition shopify_validate_connection :: "'b reply \<Rightarrow> bool logged_result" where
  "shopify_validate_connection r =
     (case r of
        Refused \<Rightarrow> ([(Error, ''Shopify connection failed'')], Inr False)
      | Response status_code _ \<Rightarrow> ([], Inr (status_code = 200)))"

text \<open>ebay_client.py lines 24 to 30, amazon_client.py lines 41 to 46, tiktok_client.py lines 70 to 76.\<close>

definition ebay_validate_connection :: "'b reply \<Rightarrow> bool logged_result" where
  "ebay_validate_connection r =
     (case r of Refused \<Rightarrow> ([], Inr False) | Response status_code _ \<Rightarrow> ([], Inr (status_code = 200)))"

definition amazon_validate_connection :: "'b reply \<Rightarrow> bool logged_result" where
  "amazon_validate_connection r =
     (case r of Refused \<Rightarrow> ([], Inr False) | Response status_code _ \<Rightarrow> ([], Inr (status_code = 200)))"

definition tiktok_validate_connection :: "'b reply \<Rightarrow> bool logged_result" where
  "tiktok_validate_connection r =
     (case r of Refused \<Rightarrow> ([], Inr False) | Response status_code _ \<Rightarrow> ([], Inr (status_code = 200)))"

text \<open>
  walmart_client.py: the constructor asks for a token (lines 24 to 42, every exception
  becomes \<^verbatim>\<open>None\<close>), and \<^verbatim>\<open>validate_connection\<close> (line 59) only looks at it.
\<close>

definition walmart_get_token :: "('b \<Rightarrow> py_exn + pyval) \<Rightarrow> 'b reply \<Rightarrow> pyval" where
  "walmart_get_token decode r =
     (case r of
        Refused \<Rightarrow> PyNone
      | Response status_code body \<Rightarrow>
          if status_code = 200 then (case decode body of Inl e \<Rightarrow> PyNone | Inr tok \<Rightarrow> tok)
          else PyNone)"

definition walmart_validate_connection :: "pyval \<Rightarrow> bool logged_result" where
  "walmart_validate_connection token = ([], Inr (token \<noteq> PyNone))"

text \<open>etsy_client.py lines 25 to 27 and facebook_client.py lines 16 to 18: no \<^verbatim>\<open>try\<close>.\<close>

definition etsy_validate_connection :: "'b reply \<Rightarrow> bool logged_result" where
  "etsy_validate_connection r =
     (case r of
        Refused \<Rightarrow> ([], Inl ConnectionError)
      | Response status_code _ \<Rightarrow> ([], Inr (status_code = 200)))"

definition facebook_validate_connection :: "'b reply \<Rightarrow> bool logged_result" where
  "facebook_validate_connection r =
     (case r of
        Refused \<Rightarrow> ([], Inl ConnectionError)
      | Response status_code _ \<Rightarrow> ([], Inr (status_code = 200)))"

text \<open>
  \<^verbatim>\<open>client.validate_connection()\<close> for a client of each class; \<open>token_reply\<close> is what
  the Walmart constructor got, \<open>r\<close> what the check itself gets.
\<close>

definition validate_connection :: "variant \<Rightarrow> ('b \<Rightarrow> py_exn + pyval) \<Rightarrow> 'b reply \<Rightarrow> 'b reply
    \<Rightarrow> bool logged_result" where
  "validate_connection v decode token_reply r =
     (case v of
        Shopify \<Rightarrow> shopify_validate_connection r
      | Ebay \<Rightarrow> ebay_validate_connection r
      | Amazon \<Rightarrow> amazon_validate_connection r
      | Walmart \<Rightarrow> walmart_validate_connection (walmart_get_token decode token_reply)
      | Etsy \<Rightarrow> etsy_validate_connection r
      | Facebook \<Rightarrow> facebook_validate_connection r
      | TikTok \<Rightarrow> tiktok_validate_connection r)"

paragraph \<open>fetch_orders\<close>










paragraph \<open>EbayClient.list_product\<close>

definition digit_char :: "nat \<Rightarrow> char" where
  "digit_char n = ''0123456789'' ! n"

function show_nat :: "nat \<Rightarrow> string" where
  "show_nat n = (if n < 10 then [digit_char n] else show_nat (n div 10) @ [digit_char (n mod 10)])"
  by pat_completeness auto
termination
  by (relation "measure id") auto

text \<open>\<^verbatim>\<open>str(x)\<close> of a value read from JSON.\<close>

definition py_str :: "pyval \<Rightarrow> string" where
  "py_str v =
     (case v of
        PyNone \<Rightarrow> ''None''
      | PyStr s \<Rightarrow> s
      | PyInt i \<Rightarrow> (if i < 0 then CHR ''-'' # show_nat (nat (- i)) else show_nat (nat i)))"

text \<open>
  ebay_client.py lines 32 to 79: the inventory item is put, the offer is posted, the
  offer is published, each with one request. \<open>decode\<close> is
  \<^verbatim>\<open>r.json().get("offerId")\<close>. None of the three requests stands in a \<^verbatim>\<open>try\<close>.
\<close>

definition ebay_list_product :: "('b \<Rightarrow> py_exn + pyval) \<Rightarrow> 'b reply \<Rightarrow> 'b reply \<Rightarrow> 'b reply
    \<Rightarrow> string logged_result" where
  "ebay_list_product decode r_item r_offer publish_r =
     (case r_item of
        Refused \<Rightarrow> ([], Inl ConnectionError)
      | Response item_status _ \<Rightarrow>
          if item_status \<noteq> 200 \<and> item_status \<noteq> 204
          then ([], Inl (AdapterError ''eBay Inventory Item create failed''))
          else
            (case r_offer of
               Refused \<Rightarrow> ([], Inl ConnectionError)
             | Response offer_status body \<Rightarrow>
                 if offer_status = 201 then
                   (case decode body of
                      Inl e \<Rightarrow> ([], Inl e)
                    | Inr offer_id \<Rightarrow>
                        (case publish_r of
                           Refused \<Rightarrow> ([], Inl ConnectionError)
                         | Response publish_status _ \<Rightarrow>
                             if publish_status = 200 then ([], Inr (py_str offer_id))
                             else ([(Error, ''Failed to publish eBay offer'')],
                                   Inr (py_str offer_id))))
                 else ([], Inl (AdapterError ''eBay Offer create failed''))))"

subsection \<open>Concrete stores and environments\<close>

text \<open>The scenario of the specification: SKU ABC-1, price 20.00, five in stock.\<close>

definition abc1 :: "rat option \<Rightarrow> string product" where
  "abc1 cost = \<lparr>p_id = 1, sku = ''ABC-1'', title = ''Widget'', description = None, price = 20,
     cost_price = cost, quantity = 5, category = None, images = None, tags = None,
     updated_at = Some 0\<rparr>"

definition abc1_listing :: listing where
  "abc1_listing = \<lparr>l_id = 1, product_id = Some 1, l_platform = ''shopify'',
     external_id = Some ''777'', l_status = Some ''active'', l_price = Some 20, url = None,
     last_synced_at = None, sync_message = None\<rparr>"

definition bare_creds :: "string \<Rightarrow> credentials" where
  "bare_creds platform = \<lparr>c_platform = platform, api_key = Some ''key'', api_secret = None,
     access_token = Some ''tok'', refresh_token = None, marketplace_id = None,
     merchant_id = None, additional_config = None\<rparr>"

definition abc1_world :: "rat option \<Rightarrow> string world" where
  "abc1_world cost = \<lparr>db = \<lparr>products = [abc1 cost], credentials_tbl = [bare_creds ''shopify''],
       listings = [abc1_listing], orders = []\<rparr>,
     autoflush = False, session_ok = True, logged = [], calls = []\<rparr>"

definition quiet_env :: "string adapter_env" where
  "quiet_env = \<lparr>list_product = (\<lambda>c p. Inr ''777''), update_inventory = (\<lambda>c e q. Inr True),
     update_price = (\<lambda>c e x. Inr True), fetch_orders = (\<lambda>c n. Inr [])\<rparr>"

text \<open>Forty days, in microseconds.\<close>

definition forty_days :: int where
  "forty_days = 40 * 86400000000"

text \<open>A store as the dashboard's settings page leaves it: one record, for Amazon.\<close>

definition amazon_db :: "string database" where
  "amazon_db = \<lparr>products = [], credentials_tbl = [bare_creds ''amazon''], listings = [],
     orders = []\<rparr>"




definition offer_42 :: "string \<Rightarrow> py_exn + pyval" where
  "offer_42 body = Inr (PyInt 42)"






section \<open>Properties\<close>

subsection \<open>The log and the trace\<close>

lemma db_say [simp]: "db (say lv msg w) = db w"
  by (simp add: say_def)

lemma db_called [simp]: "db (called c w) = db w"
  by (simp add: called_def)

lemma calls_say [simp]: "calls (say lv msg w) = calls w"
  by (simp add: say_def)

lemma calls_called [simp]: "calls (called c w) = calls w @ [c]"
  by (simp add: called_def)

lemma logged_say [simp]: "logged (say lv msg w) = logged w @ [(lv, msg)]"
  by (simp add: say_def)

lemma logged_called [simp]: "logged (called c w) = logged w"
  by (simp add: called_def)

lemma session_ok_say [simp]: "session_ok (say lv msg w) = session_ok w"
  by (simp add: say_def)

lemma session_ok_called [simp]: "session_ok (called c w) = session_ok w"
  by (simp add: called_def)

lemma autoflush_say [simp]: "autoflush (say lv msg w) = autoflush w"
  by (simp add: say_def)

lemma autoflush_called [simp]: "autoflush (called c w) = autoflush w"
  by (simp add: called_def)

subsection \<open>The pricing engine\<close>

lemma db_push_price [simp]: "db (push_price env np ls w) = db w"
  by (induction ls arbitrary: w) (auto split: option.splits sum.splits)

lemma calls_push_price:
  "\<exists>cs. calls (push_price env np ls w) = calls w @ cs \<and>
        (\<forall>c \<in> set cs. \<exists>l \<in> set ls. c = Call_update_price l np)"
proof (induction ls arbitrary: w)
  case Nil
  then show ?case by simp
next
  case (Cons l ls)
  let ?w1 = "(if l_status l = Some ''active'' then
          (case get_client (db w) (l_platform l) of
             None \<Rightarrow> w
           | Some cl \<Rightarrow>
               (case update_price env cl (external_id l) np of
                  Inr _ \<Rightarrow> called (Call_update_price l np) w
                | Inl e \<Rightarrow> say Error ''Price update failed'' (called (Call_update_price l np) w)))
        else w)"
  have step: "calls ?w1 = calls w \<or> calls ?w1 = calls w @ [Call_update_price l np]"
    by (auto split: option.splits sum.splits)
  from Cons.IH [of ?w1] obtain cs where
    cs: "calls (push_price env np ls ?w1) = calls ?w1 @ cs"
        "\<forall>c \<in> set cs. \<exists>l \<in> set ls. c = Call_update_price l np"
    by blast
  from step show ?case
  proof
    assume "calls ?w1 = calls w"
    with cs show ?thesis by (intro exI [of _ cs]) auto
  next
    assume "calls ?w1 = calls w @ [Call_update_price l np]"
    with cs show ?thesis by (intro exI [of _ "Call_update_price l np # cs"]) auto
  qed
qed

lemma fst_reprice:
  "fst (reprice env now p w) =
     (if (\<exists>t. updated_at p = Some t \<and> 30 < days_since_update now t) \<and> 0 < quantity p
         \<and> new_price p < price p
      then p\<lparr>price := new_price p\<rparr> else p)"
  by (auto simp: reprice_def split: option.splits)

lemma db_reprice [simp]: "db (snd (reprice env now p w)) = db w"
  by (auto simp: reprice_def split: option.splits)

lemma calls_reprice:
  "\<exists>cs. calls (snd (reprice env now p w)) = calls w @ cs \<and>
        (\<forall>c \<in> set cs. new_price p < price p \<and>
           (\<exists>l x. c = Call_update_price l x \<and> product_id l = Some (p_id p)))"
proof (cases "(\<exists>t. updated_at p = Some t \<and> 30 < days_since_update now t) \<and> 0 < quantity p
    \<and> new_price p < price p")
  case True
  then obtain t where t: "updated_at p = Some t" "30 < days_since_update now t" by blast
  from calls_push_price [of env "new_price p" "listings_of (db w) p"
      "say Info ''Dynamic Pricing Triggered'' w"]
  obtain cs where cs: "calls (push_price env (new_price p) (listings_of (db w) p)
        (say Info ''Dynamic Pricing Triggered'' w)) = calls w @ cs"
     "\<forall>c \<in> set cs. \<exists>l \<in> set (listings_of (db w) p). c = Call_update_price l (new_price p)"
    by auto
  have "\<forall>c \<in> set cs. new_price p < price p
      \<and> (\<exists>l x. c = Call_update_price l x \<and> product_id l = Some (p_id p))"
    using cs(2) True by (fastforce simp: listings_of_def)
  with cs(1) t True show ?thesis by (simp add: reprice_def)
next
  case False
  then have "snd (reprice env now p w) = w"
    by (auto simp: reprice_def split: option.splits)
  then show ?thesis by simp
qed

lemma reprice_all_Cons:
  "reprice_all env now (p # ps) w =
     (fst (reprice env now p w) # fst (reprice_all env now ps (snd (reprice env now p w))),
      snd (reprice_all env now ps (snd (reprice env now p w))))"
  by (simp split: prod.splits)

lemma length_reprice_all [simp]: "length (fst (reprice_all env now ps w)) = length ps"
  by (induction ps arbitrary: w) (simp_all add: reprice_all_Cons del: reprice_all.simps(2))

lemma nth_reprice_all:
  "i < length ps \<Longrightarrow>
   \<exists>w0. fst (reprice_all env now ps w) ! i = fst (reprice env now (ps ! i) w0)"
proof (induction ps arbitrary: i w)
  case Nil
  then show ?case by simp
next
  case (Cons p ps)
  show ?case
  proof (cases i)
    case 0
    then show ?thesis by (auto simp: reprice_all_Cons simp del: reprice_all.simps(2))
  next
    case (Suc j)
    with Cons.prems have "j < length ps" by simp
    from Cons.IH [OF this, of "snd (reprice env now p w)"] Suc show ?thesis
      by (simp add: reprice_all_Cons del: reprice_all.simps(2))
  qed
qed

lemma calls_reprice_all:
  "\<exists>cs. calls (snd (reprice_all env now ps w)) = calls w @ cs \<and>
        (\<forall>c \<in> set cs. \<exists>q \<in> set ps. new_price q < price q \<and>
           (\<exists>l x. c = Call_update_price l x \<and> product_id l = Some (p_id q)))"
proof (induction ps arbitrary: w)
  case Nil
  then show ?case by simp
next
  case (Cons p ps)
  obtain c1 where c1: "calls (snd (reprice env now p w)) = calls w @ c1"
    "\<forall>c \<in> set c1. new_price p < price p
       \<and> (\<exists>l x. c = Call_update_price l x \<and> product_id l = Some (p_id p))"
    using calls_reprice [of env now p w] by blast
  obtain c2 where c2: "calls (snd (reprice_all env now ps (snd (reprice env now p w))))
      = calls (snd (reprice env now p w)) @ c2"
    "\<forall>c \<in> set c2. \<exists>q \<in> set ps. new_price q < price q
       \<and> (\<exists>l x. c = Call_update_price l x \<and> product_id l = Some (p_id q))"
    using Cons.IH [of "snd (reprice env now p w)"] by blast
  have "calls (snd (reprice_all env now (p # ps) w)) = calls w @ (c1 @ c2)"
    using c1(1) c2(1) by (simp add: reprice_all_Cons del: reprice_all.simps(2))
  moreover have "\<forall>c \<in> set (c1 @ c2). \<exists>q \<in> set (p # ps). new_price q < price q \<and>
           (\<exists>l x. c = Call_update_price l x \<and> product_id l = Some (p_id q))"
    using c1(2) c2(2) by auto
  ultimately show ?case by blast
qed

lemma products_run_pricing_engine:
  "session_ok w \<Longrightarrow>
   products (db (snd (run_pricing_engine env now w))) =
     fst (reprice_all env now (products (db w)) (say Info ''Running Pricing Engine'' w))"
  by (simp add: run_pricing_engine_def Let_def split: prod.splits)

lemma calls_run_pricing_engine:
  "session_ok w \<Longrightarrow>
   calls (snd (run_pricing_engine env now w)) =
     calls (snd (reprice_all env now (products (db w)) (say Info ''Running Pricing Engine'' w)))"
  by (simp add: run_pricing_engine_def Let_def split: prod.splits)

lemma new_price_max:
  "new_price p = max (py_round2 (price p * (98 / 100)))
                     ((case cost_price p of None \<Rightarrow> 0 | Some c \<Rightarrow> c) * (110 / 100))"
  by (simp add: new_price_def floor_price_def Let_def max_def)

lemma nth_run_pricing_engine:
  assumes "session_ok w" and "i < length (products (db w))"
  shows "products (db (snd (run_pricing_engine env now w))) ! i =
     (let p = products (db w) ! i in
      if (\<exists>t. updated_at p = Some t \<and> 30 < days_since_update now t) \<and> 0 < quantity p
         \<and> new_price p < price p
      then p\<lparr>price := new_price p\<rparr> else p)"
proof -
  from nth_reprice_all [OF assms(2), of env now "say Info ''Running Pricing Engine'' w"]
  obtain w0 where
    "fst (reprice_all env now (products (db w)) (say Info ''Running Pricing Engine'' w)) ! i
      = fst (reprice env now (products (db w) ! i) w0)" by blast
  then show ?thesis
    by (simp add: products_run_pricing_engine [OF assms(1)] fst_reprice Let_def)
qed



text \<open>
  Claim C2. The engine never sets a price below the floor \<open>cost_price * 1.10\<close>: a
  price it changed is at least the floor. When the floor-clamped candidate is not
  below the current price, the product is left as it was and the run makes no
  \<^verbatim>\<open>update_price\<close> call for a listing of that product (product ids are the primary
  key, so they are distinct).
\<close>

theorem C2_price_floor:
  assumes "session_ok w" and "distinct (map p_id (products (db w)))"
    and "i < length (products (db w))"
  shows "let p = products (db w) ! i;
             w' = snd (run_pricing_engine env now w);
             p' = products (db w') ! i;
             fl = (case cost_price p of None \<Rightarrow> 0 | Some c \<Rightarrow> c) * (110 / 100);
             cand = max (py_round2 (price p * (98 / 100))) fl
         in (price p' \<noteq> price p \<longrightarrow> fl \<le> price p')
          \<and> (price p \<le> cand \<longrightarrow>
               p' = p \<and>
               (\<exists>cs. calls w' = calls w @ cs \<and>
                  (\<forall>l x. Call_update_price l x \<in> set cs \<longrightarrow> product_id l \<noteq> Some (p_id p))))"
proof -
  define p where "p = products (db w) ! i"
  define w0 where "w0 = say Info ''Running Pricing Engine'' w"
  have p_in: "p \<in> set (products (db w))"
    using assms(3) by (simp add: p_def)
  have nth: "products (db (snd (run_pricing_engine env now w))) ! i =
      (if (\<exists>t. updated_at p = Some t \<and> 30 < days_since_update now t) \<and> 0 < quantity p
          \<and> new_price p < price p
       then p\<lparr>price := new_price p\<rparr> else p)"
    using nth_run_pricing_engine [OF assms(1) assms(3), of env now] by (simp add: p_def Let_def)
  have floor_le: "(case cost_price p of None \<Rightarrow> 0 | Some c \<Rightarrow> c) * (110 / 100) \<le> new_price p"
    by (simp add: new_price_max)
  obtain cs where cs: "calls (snd (reprice_all env now (products (db w)) w0)) = calls w0 @ cs"
    and from_fired: "\<forall>c \<in> set cs. \<exists>q \<in> set (products (db w)). new_price q < price q \<and>
           (\<exists>l x. c = Call_update_price l x \<and> product_id l = Some (p_id q))"
    using calls_reprice_all [of env now "products (db w)" w0] by blast
  have calls_eq: "calls (snd (run_pricing_engine env now w)) = calls w @ cs"
    using cs by (simp add: calls_run_pricing_engine [OF assms(1)] w0_def)
  have none_for_p: "product_id l \<noteq> Some (p_id p)"
    if stays: "price p \<le> new_price p" and "Call_update_price l x \<in> set cs" for l x
  proof
    assume same: "product_id l = Some (p_id p)"
    from from_fired that(2) obtain q where q: "q \<in> set (products (db w))" "new_price q < price q"
      "product_id l = Some (p_id q)" by fastforce
    from q(3) same have "p_id q = p_id p" by simp
    with assms(2) q(1) p_in have "q = p"
      by (meson distinct_map inj_onD)
    with q(2) stays show False by simp
  qed
  show ?thesis
    unfolding Let_def p_def [symmetric] new_price_max [symmetric] nth
    using floor_le calls_eq none_for_p by (auto simp: new_price_max [symmetric])
qed

theorem C2_price_floor_witness:
  "session_ok (abc1_world (Some 19)) \<and>
   distinct (map p_id (products (db (abc1_world (Some 19))))) \<and>
   0 < length (products (db (abc1_world (Some 19)))) \<and>
   price (abc1 (Some 19))
     \<le> max (py_round2 (price (abc1 (Some 19)) * (98 / 100))) (19 * (110 / 100)) \<and>
   products (db (snd (run_pricing_engine quiet_env forty_days (abc1_world (Some 19))))) ! 0
     = abc1 (Some 19) \<and>
   calls (snd (run_pricing_engine quiet_env forty_days (abc1_world (Some 19)))) = []"
proof -
  have run: "run_pricing_engine quiet_env forty_days (abc1_world (Some 19))
      = (None, say Info ''Running Pricing Engine'' (abc1_world (Some 19)))"
    by (simp add: run_pricing_engine_def reprice_def new_price_def floor_price_def
        abc1_world_def abc1_def days_since_update_def forty_days_def py_round2_def Let_def say_def)
  from C2_price_floor [of "abc1_world (Some 19)" 0 quiet_env forty_days]
  show ?thesis
    unfolding run
    by (simp add: abc1_world_def abc1_def py_round2_def Let_def say_def)
qed

subsection \<open>The adapter factory\<close>



lemma get_client_cong:
  "credentials_tbl d = credentials_tbl d' \<Longrightarrow> get_client d P = get_client d' P"
  by (simp add: get_client_def)

subsection \<open>Publishing\<close>









lemma credentials_publish_on [simp]:
  "credentials_tbl (db (publish_on env p P w)) = credentials_tbl (db w)"
  by (auto simp: publish_on_def split: option.splits sum.splits)

lemma get_client_publish_on [simp]:
  "get_client (db (publish_on env p P w)) = get_client (db w)"
  by (rule ext, rule get_client_cong, simp)








text \<open>
  Claim C7 at the record the settings page stores for Amazon (no \<^verbatim>\<open>marketplace_id\<close>, no
  \<^verbatim>\<open>additional_config\<close>): \<^verbatim>\<open>get_client\<close> builds the Amazon client from a dict in
  which the key \<^verbatim>\<open>marketplace_id\<close> is present with the value \<^verbatim>\<open>None\<close>, so the default
  of \<^verbatim>\<open>credentials.get("marketplace_id", "ATVPDKIKX0DER")\<close> is not taken and the
  client's \<^verbatim>\<open>marketplace_id\<close> is \<^verbatim>\<open>None\<close>.
\<close>

theorem C7_amazon_marketplace_none:
  "get_client amazon_db ''amazon'' = Some (Client Amazon (c_dict (bare_creds ''amazon''))) \<and>
   c_dict (bare_creds ''amazon'') ''marketplace_id'' = Some PyNone \<and>
   az_marketplace_id (amazon_init (c_dict (bare_creds ''amazon''))) = PyNone \<and>
   az_marketplace_id (amazon_init Map.empty) = PyStr ''ATVPDKIKX0DER''"
  by (simp add: get_client_def amazon_db_def bare_creds_def c_dict_def amazon_init_def
      dict_get_def opt_val_def)

subsection \<open>The clients\<close>

text \<open>
  Claim C5 at a transport failure (\<^verbatim>\<open>requests.get\<close> raises): the clients of Shopify,
  eBay, Amazon, Walmart and TikTok answer False, the clients of Etsy and Facebook let
  the exception out of \<^verbatim>\<open>validate_connection\<close>.
\<close>

theorem C5_validate_connection_at_refusal:
  "snd (validate_connection Etsy offer_42 Refused Refused) = Inl ConnectionError \<and>
   snd (validate_connection Facebook offer_42 Refused Refused) = Inl ConnectionError \<and>
   snd (validate_connection Shopify offer_42 Refused Refused) = Inr False \<and>
   snd (validate_connection Ebay offer_42 Refused Refused) = Inr False \<and>
   snd (validate_connection Amazon offer_42 Refused Refused) = Inr False \<and>
   snd (validate_connection Walmart offer_42 Refused Refused) = Inr False \<and>
   snd (validate_connection TikTok offer_42 Refused Refused) = Inr False"
  by (simp add: validate_connection_def etsy_validate_connection_def
      facebook_validate_connection_def shopify_validate_connection_def
      ebay_validate_connection_def amazon_validate_connection_def
      walmart_validate_connection_def walmart_get_token_def tiktok_validate_connection_def)




text \<open>
  Claim C8 as stated fails: when the offer was created and the publish request itself
  fails in transport, \<^verbatim>\<open>list_product\<close> raises, although the inventory item and the
  offer were created.
\<close>

theorem C8_ebay_publish_counterexample:
  "snd (ebay_list_product offer_42 (Response 204 '''') (Response 201 ''{}'') Refused)
     = Inl ConnectionError"
  by (simp add: ebay_list_product_def offer_42_def)

text \<open>
  Claim C8, amended. When the inventory item was accepted (200 or 204), the offer was
  created (201, with a readable body) and the publish request is answered with a status
  other than 200, \<^verbatim>\<open>list_product\<close> returns the offer id as a string and logs
  \<^verbatim>\<open>Failed to publish eBay offer\<close>. It raises exactly when the inventory item step or
  the offer step fails (no response, a wrong status, an unreadable offer body), or when
  the publish request gets no response.
\<close>

theorem C8_ebay_list_product:
  shows "(decode body = Inr offer_id \<and> (item_status = 200 \<or> item_status = 204)
            \<and> publish_status \<noteq> 200 \<longrightarrow>
            ebay_list_product decode (Response item_status b1) (Response 201 body)
                (Response publish_status b3)
              = ([(Error, ''Failed to publish eBay offer'')], Inr (py_str offer_id)))
       \<and> ((\<exists>e. snd (ebay_list_product decode r_item r_offer publish_r) = Inl e) \<longleftrightarrow>
            (r_item = Refused \<or> (\<exists>st b. r_item = Response st b \<and> st \<noteq> 200 \<and> st \<noteq> 204))
          \<or> (r_offer = Refused \<or> (\<exists>st b. r_offer = Response st b \<and> st \<noteq> 201)
              \<or> (\<exists>b e. r_offer = Response 201 b \<and> decode b = Inl e))
          \<or> publish_r = Refused)"
proof (intro conjI impI)
  assume "decode body = Inr offer_id \<and> (item_status = 200 \<or> item_status = 204)
    \<and> publish_status \<noteq> 200"
  then show "ebay_list_product decode (Response item_status b1) (Response 201 body)
                (Response publish_status b3)
              = ([(Error, ''Failed to publish eBay offer'')], Inr (py_str offer_id))"
    by (auto simp: ebay_list_product_def)
next
  show "(\<exists>e. snd (ebay_list_product decode r_item r_offer publish_r) = Inl e) \<longleftrightarrow>
            (r_item = Refused \<or> (\<exists>st b. r_item = Response st b \<and> st \<noteq> 200 \<and> st \<noteq> 204))
          \<or> (r_offer = Refused \<or> (\<exists>st b. r_offer = Response st b \<and> st \<noteq> 201)
              \<or> (\<exists>b e. r_offer = Response 201 b \<and> decode b = Inl e))
          \<or> publish_r = Refused"
  proof (cases r_item)
    case Refused
    then show ?thesis by (simp add: ebay_list_product_def)
  next
    case item: (Response st1 b1)
    show ?thesis
    proof (cases "st1 \<noteq> 200 \<and> st1 \<noteq> 204")
      case True
      with item show ?thesis by (simp add: ebay_list_product_def)
    next
      case item_ok: False
      show ?thesis
      proof (cases r_offer)
        case Refused
        with item item_ok show ?thesis by (simp add: ebay_list_product_def)
      next
        case offer: (Response st2 b2)
        show ?thesis
        proof (cases "st2 = 201")
          case False
          with item item_ok offer show ?thesis by (simp add: ebay_list_product_def)
        next
          case True
          show ?thesis
          proof (cases "decode b2")
            case (Inl e)
            with item item_ok offer True show ?thesis
              by (auto simp: ebay_list_product_def)
          next
            case (Inr oid)
            with item item_ok offer True show ?thesis
              by (cases publish_r) (auto simp: ebay_list_product_def)
          qed
        qed
      qed
    qed
  qed
qed

theorem C8_ebay_list_product_witness:
  "offer_42 ''{}'' = Inr (PyInt 42) \<and>
   ebay_list_product offer_42 (Response 204 '''') (Response 201 ''{}'') (Response 500 ''no'')
     = ([(Error, ''Failed to publish eBay offer'')], Inr ''42'')"
proof -
  have s: "py_str (PyInt 42) = ''42''"
    by (simp add: py_str_def digit_char_def)
  from C8_ebay_list_product [of offer_42 "''{}''" "PyInt 42" 204 500 "''''" "''no''"]
  show ?thesis by (simp add: offer_42_def s)
qed

subsection \<open>Skipping platforms without an adapter\<close>


lemma get_client_publish_loop [simp]:
  "get_client (db (publish_loop env p ps w)) = get_client (db w)"
  by (induction ps arbitrary: w) simp_all





lemma db_sync_listing [simp]: "db (snd (sync_listing env t l w)) = db w"
  by (auto simp: sync_listing_def split: option.splits sum.splits)



lemma sync_listings_Cons:
  "sync_listings env t (l # ls) w =
     (fst (sync_listing env t l w) # fst (sync_listings env t ls (snd (sync_listing env t l w))),
      snd (sync_listings env t ls (snd (sync_listing env t l w))))"
  by (simp split: prod.splits)

lemma db_sync_listings [simp]: "db (snd (sync_listings env t ls w)) = db w"
  by (induction ls arbitrary: w) (simp_all add: sync_listings_Cons del: sync_listings.simps(2))

lemma length_sync_listings [simp]: "length (fst (sync_listings env t ls w)) = length ls"
  by (induction ls arbitrary: w) (simp_all add: sync_listings_Cons del: sync_listings.simps(2))






subsection \<open>Order sync\<close>

lemma db_say_times [simp]: "db (say_times n lv msg w) = db w"
  by (induction n arbitrary: w) simp_all

lemma calls_say_times [simp]: "calls (say_times n lv msg w) = calls w"
  by (induction n arbitrary: w) simp_all

lemma session_ok_say_times [simp]: "session_ok (say_times n lv msg w) = session_ok w"
  by (induction n arbitrary: w) simp_all

lemma autoflush_say_times [simp]: "autoflush (say_times n lv msg w) = autoflush w"
  by (induction n arbitrary: w) simp_all


lemma flush_orders_empty [simp]: "flush_orders rows [] = Inr rows"
  by (simp add: flush_orders_def)















lemma frame_sync_platform [simp]:
  "credentials_tbl (db (sync_platform env P cl w)) = credentials_tbl (db w)"
  "autoflush (sync_platform env P cl w) = autoflush w"
  by (simp_all add: sync_platform_def Let_def split: sum.splits option.splits prod.splits)











lemma get_client_sync_platform [simp]:
  "get_client (db (sync_platform env P cl w)) = get_client (db w)"
  by (rule ext, rule get_client_cong, simp)

subsection \<open>Running the order sync twice\<close>




subsection \<open>Platforms without an adapter\<close>



end
